theory Spec2Isabelle
  imports Complex_Main
begin

section \<open>Data model (types.ts)\<close>

text \<open>
  A JavaScript \<^verbatim>\<open>number\<close> is modelled as a \<^typ>\<open>real\<close>: arithmetic is exact, and
  \<^verbatim>\<open>NaN\<close> and the infinities are not values of the model. An optional field
  (\<^verbatim>\<open>f?: T\<close>) is a \<^typ>\<open>'a option\<close>, \<open>None\<close> standing for \<^verbatim>\<open>undefined\<close>.
  Field names are the source's, except where the name is reserved
  (\<^verbatim>\<open>method\<close>, \<^verbatim>\<open>notes\<close>, \<^verbatim>\<open>context\<close>, \<^verbatim>\<open>id\<close>, \<^verbatim>\<open>type\<close>).
\<close>

record ConsumptionEvent =
  timestamp :: real
  weightGrams :: real
  thcPercent :: real
  eventMethod :: string
  eventNotes :: "string option"

record SessionContext =
  place :: "string option"
  weather :: "string option"
  noise :: "string option"
  light :: "string option"
  music :: "string option"
  activity :: "string option"

record SocialContext =
  numPeopleSharing :: "real option"

record UserState =
  lastMeal :: "string option"
  mood :: "string option"
  intention :: "string option"

record GeoLocation =
  lat :: real
  lon :: real

datatype TimeOfDay = Morning | Afternoon | Evening | Night

record BaseSubstance =
  substanceKind :: "string option"

record Session =
  sessionId :: string
  startTime :: real
  endTime :: "real option"
  active :: bool
  geo :: "GeoLocation option"
  timeOfDay :: "TimeOfDay option"
  baseSubstance :: "BaseSubstance option"
  sessionContext :: SessionContext
  social :: SocialContext
  user :: UserState
  supplements :: "string list"
  effects :: "string list"
  sessionNotes :: "string option"
  consumptions :: "ConsumptionEvent list"

section \<open>Dose model (utils: doseFromEvent, computeSessionDose)\<close>

text \<open>
  \<^verbatim>\<open>sharers ?? 1\<close> replaces \<^verbatim>\<open>undefined\<close> by 1 and keeps every number, zero included.
\<close>

definition doseFromEvent :: "ConsumptionEvent \<Rightarrow> real option \<Rightarrow> real" where
  "doseFromEvent ev sharers =
     (let thcFrac = max 0 (min (thcPercent ev) 100) / 100;
          baseDose = weightGrams ev * thcFrac;
          people = max 1 (case sharers of None \<Rightarrow> 1 | Some n \<Rightarrow> n)
      in baseDose / people)"

text \<open>The accumulation of \<^verbatim>\<open>reduce\<close>, from the initial value 0, left to right.\<close>

definition computeSessionDose :: "Session \<Rightarrow> real" where
  "computeSessionDose s =
     foldl (\<lambda>acc ev. acc + doseFromEvent ev (numPeopleSharing (social s))) 0 (consumptions s)"

text \<open>
  The specification's wording of the clamp: a percentage outside \<open>[0, 100]\<close> is
  replaced by the nearest bound.
\<close>

definition clampPercent :: "real \<Rightarrow> real" where
  "clampPercent p = (if p < 0 then 0 else if 100 < p then 100 else p)"

section \<open>Tolerance model (utils: computeTolerance)\<close>

text \<open>The decay rate for a half-life of 48 hours, in milliseconds.\<close>

definition lambda :: real where
  "lambda = ln 2 / (48 * 3600 * 1000)"

text \<open>\<^verbatim>\<open>Math.round\<close>: the nearest integer, a tie going up.\<close>

definition jsRound :: "real \<Rightarrow> real" where
  "jsRound x = of_int \<lfloor>x + 1 / 2\<rfloor>"

text \<open>
  The two nested \<^verbatim>\<open>for\<close> statements of \<^verbatim>\<open>computeTolerance\<close>: the variable
  \<^verbatim>\<open>score\<close> starts at 0 and is threaded through every event of every session.
\<close>

definition toleranceScore :: "real \<Rightarrow> Session list \<Rightarrow> real" where
  "toleranceScore now sessions =
     foldl (\<lambda>score s.
        foldl (\<lambda>score ev.
           let elapsed = max 0 (now - timestamp ev);
               contribution = doseFromEvent ev (numPeopleSharing (social s))
                                * exp (- lambda * elapsed)
           in score + contribution) score (consumptions s)) 0 sessions"

text \<open>
  The value returned: \<^verbatim>\<open>Math.round(score * 1000) / 10\<close>. The arithmetic of the model
  is exact, while the program computes in double precision: the order of two
  results carries over to the program, the last digit of one result need not (the
  rounded product can sit on the other side of a tie of \<^verbatim>\<open>Math.round\<close>).
\<close>

definition computeTolerance :: "real \<Rightarrow> Session list \<Rightarrow> real" where
  "computeTolerance now sessions = jsRound (toleranceScore now sessions * 1000) / 10"

section \<open>Derived queries (utils: intervalSincePrevious, formatDuration)\<close>

text \<open>
  Reading \<^verbatim>\<open>xs[i]\<close> for a number \<open>i\<close>: the element when \<open>i\<close> is an integer
  within the array, \<^verbatim>\<open>undefined\<close> otherwise.
\<close>

definition arrayGet :: "'a list \<Rightarrow> real \<Rightarrow> 'a option" where
  "arrayGet xs i =
     (if of_int \<lfloor>i\<rfloor> = i \<and> 0 \<le> i \<and> i < real (length xs) then Some (xs ! nat \<lfloor>i\<rfloor>) else None)"

text \<open>
  A session object is always truthy, so \<^verbatim>\<open>!curr || !prev\<close> holds exactly when one of
  the two reads is \<^verbatim>\<open>undefined\<close>.
\<close>

definition intervalSincePrevious :: "Session list \<Rightarrow> real \<Rightarrow> real option" where
  "intervalSincePrevious sessions index =
     (if index \<le> 0 then None
      else case (arrayGet sessions index, arrayGet sessions (index - 1)) of
             (Some currS, Some prevS) \<Rightarrow>
               (let t1 = startTime currS;
                    t0 = (case endTime prevS of Some t \<Rightarrow> t | None \<Rightarrow> startTime prevS)
                in Some (max 0 (t1 - t0)))
           | _ \<Rightarrow> None)"

text \<open>The specification's "end-or-start" time of a session.\<close>

definition endOrStart :: "Session \<Rightarrow> real" where
  "endOrStart s = (case endTime s of Some t \<Rightarrow> t | None \<Rightarrow> startTime s)"

text \<open>
  The remainder operator \<^verbatim>\<open>%\<close> on integer values takes the sign of the dividend.
  It is used with the divisors 3600 and 60 only.
\<close>

definition jsRem :: "int \<Rightarrow> int \<Rightarrow> int" where
  "jsRem a b = sgn a * (\<bar>a\<bar> mod \<bar>b\<bar>)"

text \<open>
  The string of an integer-valued number, as \<^verbatim>\<open>hours + 'h'\<close> builds it: decimal
  digits, with a minus sign for a negative value. (From a magnitude of 10 to the power 21 on, JavaScript
  switches to exponent notation, which is not modelled.)
\<close>

definition digitChar :: "nat \<Rightarrow> char" where
  "digitChar d = ''0123456789'' ! d"

function showNat :: "nat \<Rightarrow> string" where
  "showNat n = (if n < 10 then [digitChar n] else showNat (n div 10) @ [digitChar (n mod 10)])"
  by pat_completeness auto
termination
  by (relation "measure id") auto

declare showNat.simps [simp del]

definition numToString :: "int \<Rightarrow> string" where
  "numToString i = (if i < 0 then CHR ''-'' # showNat (nat (- i)) else showNat (nat i))"

text \<open>\<^verbatim>\<open>parts.join(sep)\<close>.\<close>

fun joinWith :: "string \<Rightarrow> string list \<Rightarrow> string" where
  "joinWith sep [] = []"
| "joinWith sep [p] = p"
| "joinWith sep (p # q # ps) = p @ sep @ joinWith sep (q # ps)"

text \<open>
  A number is truthy when it is not zero, and the joined string is falsy when it
  is empty, which is when \<^verbatim>\<open>|| '0m'\<close> applies.
\<close>

definition formatDuration :: "real \<Rightarrow> string" where
  "formatDuration ms =
     (let totalSeconds = \<lfloor>ms / 1000\<rfloor>;
          hours = totalSeconds div 3600;
          minutes = jsRem totalSeconds 3600 div 60;
          seconds = jsRem totalSeconds 60;
          parts = (if hours \<noteq> 0 then [numToString hours @ ''h''] else [])
                @ (if minutes \<noteq> 0 then [numToString minutes @ ''m''] else [])
                @ (if seconds \<noteq> 0 \<and> hours = 0 then [numToString seconds @ ''s''] else []);
          joined = joinWith '' '' parts
      in if joined = [] then ''0m'' else joined)"

section \<open>Persistence (utils: loadSessions, saveSessions)\<close>

text \<open>
  The values of JSON. An object is the list of its properties, in order, each key
  once; a property is read by its key. In memory, a session is the object with the
  fields of its record: \<open>jsonOfSession\<close> is that object as \<^verbatim>\<open>JSON.stringify\<close> sees it,
  where a property whose value is \<^verbatim>\<open>undefined\<close> is left out.
\<close>

datatype json =
    JNull
  | JBool bool
  | JNum real
  | JStr string
  | JArr "json list"
  | JObj "(string \<times> json) list"

definition optField :: "string \<Rightarrow> ('a \<Rightarrow> json) \<Rightarrow> 'a option \<Rightarrow> (string \<times> json) list" where
  "optField k f v = (case v of None \<Rightarrow> [] | Some x \<Rightarrow> [(k, f x)])"

definition jsonOfEvent :: "ConsumptionEvent \<Rightarrow> json" where
  "jsonOfEvent ev =
     JObj ([(''timestamp'', JNum (timestamp ev)),
            (''weightGrams'', JNum (weightGrams ev)),
            (''thcPercent'', JNum (thcPercent ev)),
            (''method'', JStr (eventMethod ev))]
           @ optField ''notes'' JStr (eventNotes ev))"

definition jsonOfContext :: "SessionContext \<Rightarrow> json" where
  "jsonOfContext c =
     JObj (optField ''place'' JStr (place c) @ optField ''weather'' JStr (weather c)
           @ optField ''noise'' JStr (noise c) @ optField ''light'' JStr (light c)
           @ optField ''music'' JStr (music c) @ optField ''activity'' JStr (activity c))"

definition jsonOfSocial :: "SocialContext \<Rightarrow> json" where
  "jsonOfSocial c = JObj (optField ''numPeopleSharing'' JNum (numPeopleSharing c))"

definition jsonOfUser :: "UserState \<Rightarrow> json" where
  "jsonOfUser u =
     JObj (optField ''lastMeal'' JStr (lastMeal u) @ optField ''mood'' JStr (mood u)
           @ optField ''intention'' JStr (intention u))"

definition jsonOfGeo :: "GeoLocation \<Rightarrow> json" where
  "jsonOfGeo g = JObj [(''lat'', JNum (lat g)), (''lon'', JNum (lon g))]"

fun jsonOfTimeOfDay :: "TimeOfDay \<Rightarrow> json" where
  "jsonOfTimeOfDay Morning = JStr ''Morning''"
| "jsonOfTimeOfDay Afternoon = JStr ''Afternoon''"
| "jsonOfTimeOfDay Evening = JStr ''Evening''"
| "jsonOfTimeOfDay Night = JStr ''Night''"

definition jsonOfBaseSubstance :: "BaseSubstance \<Rightarrow> json" where
  "jsonOfBaseSubstance b = JObj (optField ''type'' JStr (substanceKind b))"

definition jsonOfSession :: "Session \<Rightarrow> json" where
  "jsonOfSession s =
     JObj ([(''id'', JStr (sessionId s)),
            (''startTime'', JNum (startTime s))]
           @ optField ''endTime'' JNum (endTime s)
           @ [(''active'', JBool (active s))]
           @ optField ''geo'' jsonOfGeo (geo s)
           @ optField ''timeOfDay'' jsonOfTimeOfDay (timeOfDay s)
           @ optField ''baseSubstance'' jsonOfBaseSubstance (baseSubstance s)
           @ [(''context'', jsonOfContext (sessionContext s)),
              (''social'', jsonOfSocial (social s)),
              (''user'', jsonOfUser (user s)),
              (''supplements'', JArr (map JStr (supplements s))),
              (''effects'', JArr (map JStr (effects s)))]
           @ optField ''notes'' JStr (sessionNotes s)
           @ [(''consumptions'', JArr (map jsonOfEvent (consumptions s)))])"

text \<open>
  \<^verbatim>\<open>Array.isArray\<close>, truthiness and property access on a parsed value; \<open>None\<close> is
  \<^verbatim>\<open>undefined\<close>, which is what reading a property of a number, a string or a boolean
  gives here.
\<close>

fun isArray :: "json option \<Rightarrow> bool" where
  "isArray (Some (JArr xs)) = True"
| "isArray _ = False"

fun truthy :: "json \<Rightarrow> bool" where
  "truthy JNull = False"
| "truthy (JBool b) = b"
| "truthy (JNum x) = (x \<noteq> 0)"
| "truthy (JStr s) = (s \<noteq> [])"
| "truthy (JArr xs) = True"
| "truthy (JObj kvs) = True"

fun getProp :: "json \<Rightarrow> string \<Rightarrow> json option" where
  "getProp (JObj kvs) k = map_of kvs k"
| "getProp _ k = None"

fun elements :: "json option \<Rightarrow> json list" where
  "elements (Some (JArr xs)) = xs"
| "elements _ = []"

text \<open>
  \<^verbatim>\<open>JSON.parse\<close> and \<^verbatim>\<open>JSON.stringify\<close> belong to the platform, not to the
  repository: they are parameters of the two functions. \<^verbatim>\<open>JSON.parse\<close> throws on
  a text that is not JSON, which is the result \<open>Inl SyntaxError\<close>. \<^verbatim>\<open>Date.now()\<close>
  is the parameter \<open>dateNow\<close>.

  \<^verbatim>\<open>localStorage\<close> holds strings under keys, up to a quota that is counted here
  in the characters of its keys and values: \<^verbatim>\<open>getItem\<close> gives \<^verbatim>\<open>null\<close> (\<open>None\<close>) for
  a missing key, and \<^verbatim>\<open>setItem\<close> throws \<^verbatim>\<open>QuotaExceededError\<close> and stores nothing
  when the new item does not fit.
\<close>

datatype error = SyntaxError | QuotaExceededError

record storage =
  items :: "(string \<times> string) list"
  quota :: nat

definition getItem :: "storage \<Rightarrow> string \<Rightarrow> string option" where
  "getItem st k = map_of (items st) k"

definition storedSize :: "(string \<times> string) list \<Rightarrow> nat" where
  "storedSize kvs = (\<Sum>(k, v)\<leftarrow>kvs. length k + length v)"

definition setItem :: "storage \<Rightarrow> string \<Rightarrow> string \<Rightarrow> error + storage" where
  "setItem st k v =
     (let items' = (k, v) # filter (\<lambda>p. fst p \<noteq> k) (items st)
      in if storedSize items' \<le> quota st then Inr (st\<lparr>items := items'\<rparr>)
         else Inl QuotaExceededError)"

definition STORAGE_KEY :: string where
  "STORAGE_KEY = ''WEED_SESSIONS_V1''"

text \<open>
  The body of the \<^verbatim>\<open>try\<close> block. The cast \<^verbatim>\<open>as Session[]\<close> checks nothing, so
  what is returned is the parsed array as it is.
\<close>

definition loadSessionsTry :: "(string \<Rightarrow> error + json) \<Rightarrow> storage \<Rightarrow> error + json list" where
  "loadSessionsTry JSON_parse localStorage =
     (case getItem localStorage STORAGE_KEY of
        None \<Rightarrow> Inr []
      | Some raw \<Rightarrow>
          if raw = [] then Inr []
          else case JSON_parse raw of
                 Inl e \<Rightarrow> Inl e
               | Inr parsed \<Rightarrow>
                   if isArray (Some parsed) then Inr (elements (Some parsed))
                   else if truthy parsed \<and> isArray (getProp parsed ''sessions'')
                        then Inr (elements (getProp parsed ''sessions''))
                   else Inr [])"

text \<open>The \<^verbatim>\<open>catch\<close> clause turns every exception of the body into the empty list.\<close>

definition loadSessions :: "(string \<Rightarrow> error + json) \<Rightarrow> storage \<Rightarrow> json list" where
  "loadSessions JSON_parse localStorage =
     (case loadSessionsTry JSON_parse localStorage of
        Inl e \<Rightarrow> []
      | Inr sessions \<Rightarrow> sessions)"

definition payloadOf :: "Session list \<Rightarrow> real \<Rightarrow> json" where
  "payloadOf sessions createdAt =
     JObj [(''sessions'', JArr (map jsonOfSession sessions)),
           (''createdAt'', JNum createdAt),
           (''version'', JNum 1)]"

text \<open>
  \<^verbatim>\<open>saveSessions\<close> has no \<^verbatim>\<open>try\<close>: an exception of \<^verbatim>\<open>setItem\<close> leaves it as it
  is, and the store is then unchanged. The result is the error or the new store.
\<close>

definition saveSessions :: "(json \<Rightarrow> string) \<Rightarrow> real \<Rightarrow> Session list \<Rightarrow> storage \<Rightarrow> error + storage" where
  "saveSessions JSON_stringify dateNow sessions localStorage =
     (let payload = payloadOf sessions dateNow
      in setItem localStorage STORAGE_KEY (JSON_stringify payload))"

section \<open>The JSON text of the platform (JSON.stringify, JSON.parse)\<close>

text \<open>
  A model of the two platform functions, for the texts that \<^verbatim>\<open>saveSessions\<close> writes
  and \<^verbatim>\<open>loadSessions\<close> reads. A string is a list of 8-bit characters.

  \<^verbatim>\<open>JSON.stringify\<close> writes no white space. In a string it escapes the quote, the
  backslash and the control characters, each as a backslash and a second
  character; a control character is written with one of the letters \<open>b f n r t\<close>
  or with \<open>u00\<close> and two hexadecimal digits.
\<close>

definition hexDigit :: "nat \<Rightarrow> char" where
  "hexDigit d = ''0123456789abcdef'' ! d"

definition escapeChar :: "char \<Rightarrow> string" where
  "escapeChar c =
     (if c = CHR 0x22 then [CHR 0x5C, CHR 0x22]
      else if c = CHR 0x5C then [CHR 0x5C, CHR 0x5C]
      else if c = CHR 0x08 then [CHR 0x5C, CHR ''b'']
      else if c = CHR 0x0C then [CHR 0x5C, CHR ''f'']
      else if c = CHR 0x0A then [CHR 0x5C, CHR ''n'']
      else if c = CHR 0x0D then [CHR 0x5C, CHR ''r'']
      else if c = CHR 0x09 then [CHR 0x5C, CHR ''t'']
      else if (of_char c :: nat) < 32
        then [CHR 0x5C, CHR ''u'', CHR ''0'', CHR ''0'',
              hexDigit (of_char c div 16), hexDigit (of_char c mod 16)]
      else [c])"

definition quoteString :: "string \<Rightarrow> string" where
  "quoteString s = CHR 0x22 # concat (map escapeChar s) @ [CHR 0x22]"

text \<open>
  A number is written in decimal digits. JavaScript writes the shortest digits
  that read back as the same double, and an exponent for very large and very small
  magnitudes; the model writes the exact decimal expansion of the number, which
  every double has, with at most 1074 digits after the point. Both texts denote
  the same number. A number is a \<open>decimalNumber\<close> when its expansion ends within
  these digits.
\<close>

definition fractionDigits :: nat where
  "fractionDigits = 1074"

function fracDigits :: "nat \<Rightarrow> real \<Rightarrow> string" where
  "fracDigits n f =
     (if n = 0 \<or> f = 0 then []
      else digitChar (nat \<lfloor>f * 10\<rfloor>) # fracDigits (n - 1) (f * 10 - of_int \<lfloor>f * 10\<rfloor>))"
  by pat_completeness auto
termination
  by (relation "measure fst") auto

declare fracDigits.simps [simp del]




definition numberText :: "real \<Rightarrow> string" where
  "numberText x =
     (let a = \<bar>x\<bar>; i = \<lfloor>a\<rfloor>; f = a - of_int i
      in (if x < 0 then ''-'' else []) @ showNat (nat i)
         @ (if f = 0 then [] else CHR ''.'' # fracDigits fractionDigits f))"

fun jsonStringify :: "json \<Rightarrow> string" where
  "jsonStringify JNull = ''null''"
| "jsonStringify (JBool b) = (if b then ''true'' else ''false'')"
| "jsonStringify (JNum x) = numberText x"
| "jsonStringify (JStr s) = quoteString s"
| "jsonStringify (JArr vs) = ''['' @ joinWith '','' (map jsonStringify vs) @ '']''"
| "jsonStringify (JObj ms) =
     ''{'' @ joinWith '','' (map (\<lambda>(k, v). quoteString k @ '':'' @ jsonStringify v) ms) @ ''}''"

text \<open>
  \<^verbatim>\<open>JSON.parse\<close> follows the grammar of JSON: white space (space, tab, line feed,
  carriage return) around every token; the literals \<^verbatim>\<open>true\<close>, \<^verbatim>\<open>false\<close> and
  \<^verbatim>\<open>null\<close>; numbers with an optional minus sign, an integer part without leading
  zeros, an optional fraction and an optional exponent; strings with their escapes;
  arrays and objects. The value of a number is the number written (JavaScript
  takes the nearest double). An escape by \<open>u\<close> and four hexadecimal digits above
  \<open>00ff\<close> names no 8-bit character and is refused by the model.
\<close>

definition isWs :: "char \<Rightarrow> bool" where
  "isWs c = (c = CHR 0x20 \<or> c = CHR 0x09 \<or> c = CHR 0x0A \<or> c = CHR 0x0D)"

definition skipWs :: "string \<Rightarrow> string" where
  "skipWs s = dropWhile isWs s"



















definition numberEnd :: "string \<Rightarrow> bool" where
  "numberEnd rest =
     (case rest of [] \<Rightarrow> True | c # r \<Rightarrow> c = CHR '','' \<or> c = CHR '']'' \<or> c = CHR ''}'')"



section \<open>Session store (App: addConsumption, updateContext, endSession)\<close>

text \<open>
  The state of the component is the session list; each handler returns the list
  that \<^verbatim>\<open>setSessions\<close> installs, or the list as it was when the handler returns
  before calling it. The fields of the form carry the prefix \<open>form_\<close>.
\<close>

record Form =
  form_substanceType :: string
  form_weightGrams :: real
  form_thcPercent :: real
  form_method :: string
  form_place :: string
  form_weather :: string
  form_noise :: string
  form_light :: string
  form_music :: string
  form_activity :: string
  form_numPeopleSharing :: real
  form_lastMeal :: string
  form_mood :: string
  form_intention :: string
  form_supplements :: string
  form_effects :: "string list"
  form_notes :: string

text \<open>\<^verbatim>\<open>Number(x || d)\<close> for a number \<open>x\<close>: zero is falsy and gives the default.\<close>

definition numberOr :: "real \<Rightarrow> real \<Rightarrow> real" where
  "numberOr x d = (if x = 0 then d else x)"

text \<open>
  \<^verbatim>\<open>text.split(',')\<close>, \<^verbatim>\<open>trim\<close> (over the ASCII white space) and
  \<^verbatim>\<open>filter(Boolean)\<close>, which drops the empty strings.
\<close>

fun splitComma :: "string \<Rightarrow> string list" where
  "splitComma [] = [[]]"
| "splitComma (c # cs) =
     (if c = CHR '','' then [] # splitComma cs
      else case splitComma cs of
             w # ws \<Rightarrow> (c # w) # ws
           | [] \<Rightarrow> [[c]])"

definition isSpace :: "char \<Rightarrow> bool" where
  "isSpace c = (c \<in> set [CHR '' '', CHR 0x09, CHR 0x0A, CHR 0x0B, CHR 0x0C, CHR 0x0D])"

definition trim :: "string \<Rightarrow> string" where
  "trim s = rev (dropWhile isSpace (rev (dropWhile isSpace s)))"

definition parseSupplements :: "string \<Rightarrow> string list" where
  "parseSupplements text =
     (if text \<noteq> [] then filter (\<lambda>s. s \<noteq> []) (map trim (splitComma text)) else [])"

definition formEvent :: "Form \<Rightarrow> real \<Rightarrow> ConsumptionEvent" where
  "formEvent form dateNow =
     \<lparr>timestamp = dateNow,
      weightGrams = numberOr (form_weightGrams form) 0,
      thcPercent = numberOr (form_thcPercent form) 0,
      eventMethod = form_method form,
      eventNotes = None\<rparr>"

text \<open>
  \<^verbatim>\<open>const active = sessions.find(s => s.active)\<close> is the first active session;
  every handler starts with \<^verbatim>\<open>if (!active) return\<close>.
\<close>

definition addConsumption :: "Form \<Rightarrow> real \<Rightarrow> Session list \<Rightarrow> Session list" where
  "addConsumption form dateNow sessions =
     (case find active sessions of
        None \<Rightarrow> sessions
      | Some act \<Rightarrow>
          (let ev = formEvent form dateNow
           in map (\<lambda>s. if sessionId s = sessionId act
                        then s\<lparr>consumptions := consumptions s @ [ev]\<rparr> else s) sessions))"

definition updateContext :: "Form \<Rightarrow> Session list \<Rightarrow> Session list" where
  "updateContext form sessions =
     (case find active sessions of
        None \<Rightarrow> sessions
      | Some act \<Rightarrow>
          map (\<lambda>s. if sessionId s = sessionId act
                    then s\<lparr>sessionContext :=
                             \<lparr>place = Some (form_place form), weather = Some (form_weather form),
                              noise = Some (form_noise form), light = Some (form_light form),
                              music = Some (form_music form),
                              activity = Some (form_activity form)\<rparr>,
                           social :=
                             \<lparr>numPeopleSharing = Some (numberOr (form_numPeopleSharing form) 1)\<rparr>,
                           user :=
                             \<lparr>lastMeal = Some (form_lastMeal form), mood = Some (form_mood form),
                              intention = Some (form_intention form)\<rparr>,
                           supplements := parseSupplements (form_supplements form),
                           effects := form_effects form,
                           sessionNotes := Some (form_notes form)\<rparr>
                    else s) sessions)"

definition endSession :: "real \<Rightarrow> Session list \<Rightarrow> Session list" where
  "endSession dateNow sessions =
     (case find active sessions of
        None \<Rightarrow> sessions
      | Some act \<Rightarrow>
          map (\<lambda>s. if sessionId s = sessionId act
                    then s\<lparr>active := False, endTime := Some dateNow\<rparr> else s) sessions)"

section \<open>Example data\<close>

text \<open>
  An event of 1 g at 20 % THC, a session as \<^verbatim>\<open>startSession\<close> builds it (active
  exactly when it has no end time), a filled form, a store of 5 MiB that holds one
  text under the storage key, and a parser that knows a few texts and rejects
  every other one.
\<close>

definition exampleEvent :: "real \<Rightarrow> ConsumptionEvent" where
  "exampleEvent t =
     \<lparr>timestamp = t, weightGrams = 1, thcPercent = 20, eventMethod = ''Joint'', eventNotes = None\<rparr>"

definition exampleSession :: "string \<Rightarrow> real \<Rightarrow> real option \<Rightarrow> ConsumptionEvent list \<Rightarrow> Session" where
  "exampleSession i t0 t1 evs =
     \<lparr>sessionId = i, startTime = t0, endTime = t1, active = (t1 = None), geo = None,
      timeOfDay = Some Evening, baseSubstance = Some \<lparr>substanceKind = Some ''Unknown''\<rparr>,
      sessionContext = \<lparr>place = Some ''Home'', weather = Some '''', noise = Some '''',
                        light = Some '''', music = Some '''', activity = Some ''''\<rparr>,
      social = \<lparr>numPeopleSharing = Some 1\<rparr>,
      user = \<lparr>lastMeal = Some '''', mood = Some '''', intention = Some ''''\<rparr>,
      supplements = [], effects = [], sessionNotes = Some '''', consumptions = evs\<rparr>"

definition exampleForm :: Form where
  "exampleForm =
     \<lparr>form_substanceType = '''', form_weightGrams = 1, form_thcPercent = 20,
      form_method = ''Joint'', form_place = ''Park'', form_weather = '''', form_noise = '''',
      form_light = '''', form_music = '''', form_activity = '''', form_numPeopleSharing = 2,
      form_lastMeal = '''', form_mood = '''', form_intention = '''',
      form_supplements = ''CBD, L-theanine'', form_effects = [''Relaxed''], form_notes = ''''\<rparr>"

definition storeWith :: "string \<Rightarrow> storage" where
  "storeWith raw = \<lparr>items = [(STORAGE_KEY, raw)], quota = 5242880\<rparr>"

definition exampleParse :: "string \<Rightarrow> error + json" where
  \<open>exampleParse raw =
     (if raw = ''[7]'' then Inr (JArr [JNum 7])
      else if raw = ''{"sessions":[7],"createdAt":0,"version":1}''
        then Inr (JObj [(''sessions'', JArr [JNum 7]), (''createdAt'', JNum 0),
                        (''version'', JNum 1)])
      else if raw = ''{"sessions":[7]}'' then Inr (JObj [(''sessions'', JArr [JNum 7])])
      else if raw = ''{"sessions":"none"}'' then Inr (JObj [(''sessions'', JStr ''none'')])
      else Inl SyntaxError)\<close>

section \<open>Properties of the dose model\<close>

lemma foldl_add_sum_list:
  "foldl (\<lambda>acc x. acc + f x) a xs = (a::real) + sum_list (map f xs)"
  by (induction xs arbitrary: a) (simp_all add: add.assoc)

lemma doseFromEvent_nonneg: "0 \<le> weightGrams ev \<Longrightarrow> 0 \<le> doseFromEvent ev sh"
  by (simp add: doseFromEvent_def Let_def split: option.splits)

text \<open>
  C3. For every event and every sharer count, undefined, zero and negative
  included, \<open>doseFromEvent\<close> is the weight times the clamped percentage over 100,
  divided by the larger of 1 and the sharer count (1 when undefined). A percentage
  below 0 or above 100 gives what the nearest bound gives, and an undefined or
  non-positive sharer count gives what the count 1 gives.
\<close>

theorem doseFromEvent_formula:
  "doseFromEvent ev sharers =
     (weightGrams ev * clampPercent (thcPercent ev) / 100)
       / max 1 (case sharers of None \<Rightarrow> 1 | Some n \<Rightarrow> n)
   \<and> (thcPercent ev < 0 \<longrightarrow>
        doseFromEvent ev sharers = doseFromEvent (ev\<lparr>thcPercent := 0\<rparr>) sharers)
   \<and> (100 < thcPercent ev \<longrightarrow>
        doseFromEvent ev sharers = doseFromEvent (ev\<lparr>thcPercent := 100\<rparr>) sharers)
   \<and> doseFromEvent ev None = doseFromEvent ev (Some 1)
   \<and> (\<forall>n. n \<le> 0 \<longrightarrow> doseFromEvent ev (Some n) = doseFromEvent ev (Some 1))"
  by (auto simp: doseFromEvent_def clampPercent_def Let_def max_def min_def
           split: option.splits)

theorem doseFromEvent_formula_witness:
  "doseFromEvent \<lparr>timestamp = 0, weightGrams = 1, thcPercent = 150, eventMethod = ''Joint'',
                   eventNotes = None\<rparr> (Some (-2)) = 1
   \<and> doseFromEvent \<lparr>timestamp = 0, weightGrams = 1, thcPercent = -5, eventMethod = ''Joint'',
                   eventNotes = None\<rparr> (Some 0) = 0"
  using doseFromEvent_formula
          [of "\<lparr>timestamp = 0, weightGrams = 1, thcPercent = 150, eventMethod = ''Joint'',
                eventNotes = None\<rparr>" "Some (-2)"]
        doseFromEvent_formula
          [of "\<lparr>timestamp = 0, weightGrams = 1, thcPercent = -5, eventMethod = ''Joint'',
                eventNotes = None\<rparr>" "Some 0"]
  by (simp add: clampPercent_def)

text \<open>
  C4. The dose of a session is the sum of \<open>doseFromEvent\<close> over its events, each
  with the session's own sharer count, and it is additive in the event list: with
  the other fields fixed, the dose for the events \<open>[a, b]\<close> is the dose for \<open>[a]\<close>
  plus the dose for \<open>[b]\<close>, and likewise for any concatenation.
\<close>

theorem computeSessionDose_additive:
  "computeSessionDose s =
     (\<Sum>ev\<leftarrow>consumptions s. doseFromEvent ev (numPeopleSharing (social s)))
   \<and> computeSessionDose (s\<lparr>consumptions := [a, b]\<rparr>) =
       computeSessionDose (s\<lparr>consumptions := [a]\<rparr>)
         + computeSessionDose (s\<lparr>consumptions := [b]\<rparr>)
   \<and> computeSessionDose (s\<lparr>consumptions := xs @ ys\<rparr>) =
       computeSessionDose (s\<lparr>consumptions := xs\<rparr>)
         + computeSessionDose (s\<lparr>consumptions := ys\<rparr>)"
  by (simp add: computeSessionDose_def foldl_add_sum_list)

section \<open>Properties of the tolerance model\<close>

lemma foldl_nested_sum:
  "foldl (\<lambda>acc s. foldl (\<lambda>acc e. acc + f s e) acc (g s)) a xs
     = (a::real) + (\<Sum>s\<leftarrow>xs. \<Sum>e\<leftarrow>g s. f s e)"
  by (induction xs arbitrary: a) (simp_all add: foldl_add_sum_list add.assoc)

lemma toleranceScore_sum:
  "toleranceScore now sessions =
     (\<Sum>s\<leftarrow>sessions. \<Sum>ev\<leftarrow>consumptions s.
        doseFromEvent ev (numPeopleSharing (social s))
          * exp (- lambda * max 0 (now - timestamp ev)))"
  by (simp add: toleranceScore_def Let_def foldl_nested_sum)

lemma lambda_pos: "0 < lambda"
  by (simp add: lambda_def)

lemma sum_list_mono2:
  "(\<And>x. x \<in> set xs \<Longrightarrow> f x \<le> (g x::real)) \<Longrightarrow> sum_list (map f xs) \<le> sum_list (map g xs)"
  by (induction xs) (auto intro: add_mono)

lemma sum_list_strict:
  "(\<And>x. x \<in> set xs \<Longrightarrow> f x \<le> (g x::real)) \<Longrightarrow> \<exists>x\<in>set xs. f x < g x
     \<Longrightarrow> sum_list (map f xs) < sum_list (map g xs)"
proof (induction xs)
  case Nil
  then show ?case by simp
next
  case (Cons a xs)
  show ?case
  proof (cases "f a < g a")
    case True
    have "sum_list (map f xs) \<le> sum_list (map g xs)"
      using Cons.prems(1) by (intro sum_list_mono2) simp
    with True show ?thesis by simp
  next
    case False
    with Cons.prems have "\<exists>x\<in>set xs. f x < g x" by auto
    then have "sum_list (map f xs) < sum_list (map g xs)"
      using Cons.IH Cons.prems(1) by simp
    moreover have "f a \<le> g a" using Cons.prems(1) by simp
    ultimately show ?thesis by simp
  qed
qed

lemma jsRound_mono: "x \<le> y \<Longrightarrow> jsRound x \<le> jsRound y"
  by (simp add: jsRound_def floor_mono)

lemma contribution_mono:
  assumes "0 \<le> weightGrams ev" "now1 \<le> now2"
  shows "doseFromEvent ev sh * exp (- lambda * max 0 (now2 - timestamp ev))
       \<le> doseFromEvent ev sh * exp (- lambda * max 0 (now1 - timestamp ev))"
proof -
  have "lambda * max 0 (now1 - timestamp ev) \<le> lambda * max 0 (now2 - timestamp ev)"
    using assms(2) lambda_pos by (intro mult_left_mono) auto
  then show ?thesis
    using doseFromEvent_nonneg [OF assms(1)] by (intro mult_left_mono) auto
qed

lemma contribution_strict:
  assumes "0 < doseFromEvent ev sh" "now1 < now2" "timestamp ev \<le> now1"
  shows "doseFromEvent ev sh * exp (- lambda * max 0 (now2 - timestamp ev))
       < doseFromEvent ev sh * exp (- lambda * max 0 (now1 - timestamp ev))"
proof -
  have "lambda * max 0 (now1 - timestamp ev) < lambda * max 0 (now2 - timestamp ev)"
    using assms(2,3) lambda_pos by (intro mult_strict_left_mono) auto
  then show ?thesis
    using assms(1) by (intro mult_strict_left_mono) auto
qed

text \<open>
  The rounding hides a small decay: for one solo event of 1 g at 20 % THC the
  score times 1000 stays within half a unit of 200 for the first 432 seconds, so
  the tolerance is 20 throughout.
\<close>

lemma jsRound_200:
  assumes "0 \<le> x" "x \<le> 172800000 / 400"
  shows "jsRound (200 * exp (- lambda * x)) = 200"
proof -
  have l1: "lambda \<le> 1 / 172800000"
    using ln_2_less_1 by (simp add: lambda_def)
  have "lambda * x \<le> (1 / 172800000) * (172800000 / 400)"
    using assms l1 lambda_pos by (intro mult_mono) auto
  then have lx: "lambda * x \<le> 1 / 400" by simp
  have "1 + (- lambda * x) \<le> exp (- lambda * x)"
    by (rule exp_ge_add_one_self)
  with lx have lo: "1 - 1 / 400 \<le> exp (- lambda * x)" by simp
  have "0 \<le> lambda * x" using assms lambda_pos by simp
  then have hi: "exp (- lambda * x) \<le> 1" by simp
  have "200 \<le> 200 * exp (- lambda * x) + 1 / 2"
    and "200 * exp (- lambda * x) + 1 / 2 < 200 + 1"
    using lo hi by linarith+
  then have "\<lfloor>200 * exp (- lambda * x) + 1 / 2\<rfloor> = 200"
    by (subst floor_eq_iff) simp
  then show ?thesis by (simp add: jsRound_def)
qed

lemma computeTolerance_example:
  assumes "0 \<le> now" "now \<le> 432000"
  shows "computeTolerance now [exampleSession ''s_1'' 0 None [exampleEvent 0]] = 20"
proof -
  have "toleranceScore now [exampleSession ''s_1'' 0 None [exampleEvent 0]]
        = exp (- lambda * now) / 5"
    using assms by (simp add: toleranceScore_def exampleSession_def exampleEvent_def
        doseFromEvent_def Let_def)
  then have "computeTolerance now [exampleSession ''s_1'' 0 None [exampleEvent 0]]
        = jsRound (200 * exp (- lambda * now)) / 10"
    by (simp only: computeTolerance_def) simp
  also have "\<dots> = 20"
    using jsRound_200 [of now] assms by simp
  finally show ?thesis .
qed

text \<open>
  C2, as amended. For sessions whose events all have a weight of at least 0, and
  times \<open>now1 \<le> now2\<close>, the tolerance at \<open>now2\<close> is at most the tolerance at
  \<open>now1\<close>. The score before rounding is strictly smaller at \<open>now2\<close> when
  \<open>now1 < now2\<close>, no event is later than \<open>now1\<close>, and some event has a positive
  dose; the rounded value may stay the same.
\<close>

theorem computeTolerance_nonincreasing:
  assumes "\<forall>s\<in>set sessions. \<forall>ev\<in>set (consumptions s). 0 \<le> weightGrams ev"
    and "now1 \<le> now2"
  shows "computeTolerance now2 sessions \<le> computeTolerance now1 sessions
       \<and> (now1 < now2
            \<and> (\<forall>s\<in>set sessions. \<forall>ev\<in>set (consumptions s). timestamp ev \<le> now1)
            \<and> (\<exists>s\<in>set sessions. \<exists>ev\<in>set (consumptions s).
                  0 < doseFromEvent ev (numPeopleSharing (social s)))
          \<longrightarrow> toleranceScore now2 sessions < toleranceScore now1 sessions)"
proof
  have "toleranceScore now2 sessions \<le> toleranceScore now1 sessions"
    unfolding toleranceScore_sum
    using assms by (intro sum_list_mono2 contribution_mono) auto
  then show "computeTolerance now2 sessions \<le> computeTolerance now1 sessions"
    by (simp add: computeTolerance_def jsRound_mono)
next
  show "now1 < now2
            \<and> (\<forall>s\<in>set sessions. \<forall>ev\<in>set (consumptions s). timestamp ev \<le> now1)
            \<and> (\<exists>s\<in>set sessions. \<exists>ev\<in>set (consumptions s).
                  0 < doseFromEvent ev (numPeopleSharing (social s)))
          \<longrightarrow> toleranceScore now2 sessions < toleranceScore now1 sessions"
  proof (intro impI, elim conjE bexE)
    fix s ev
    assume lt: "now1 < now2"
      and past: "\<forall>s\<in>set sessions. \<forall>ev\<in>set (consumptions s). timestamp ev \<le> now1"
      and s: "s \<in> set sessions" and ev: "ev \<in> set (consumptions s)"
      and pos: "0 < doseFromEvent ev (numPeopleSharing (social s))"
    let ?c = "\<lambda>now s ev. doseFromEvent ev (numPeopleSharing (social s))
                * exp (- lambda * max 0 (now - timestamp ev))"
    have le: "?c now2 s' e \<le> ?c now1 s' e"
      if "s' \<in> set sessions" "e \<in> set (consumptions s')" for s' e
      using that assms by (intro contribution_mono) auto
    have "?c now2 s ev < ?c now1 s ev"
      using pos lt past s ev by (intro contribution_strict) auto
    then have "(\<Sum>e\<leftarrow>consumptions s. ?c now2 s e) < (\<Sum>e\<leftarrow>consumptions s. ?c now1 s e)"
      using le [OF s] ev by (intro sum_list_strict) auto
    then show "toleranceScore now2 sessions < toleranceScore now1 sessions"
      unfolding toleranceScore_sum
      using le s by (intro sum_list_strict sum_list_mono2) auto
  qed
qed

theorem computeTolerance_nonincreasing_witness:
  "computeTolerance 172800000 [exampleSession ''s_1'' 0 None [exampleEvent 0]]
     \<le> computeTolerance 0 [exampleSession ''s_1'' 0 None [exampleEvent 0]]
   \<and> toleranceScore 172800000 [exampleSession ''s_1'' 0 None [exampleEvent 0]]
     < toleranceScore 0 [exampleSession ''s_1'' 0 None [exampleEvent 0]]"
  using computeTolerance_nonincreasing
          [of "[exampleSession ''s_1'' 0 None [exampleEvent 0]]" 0 172800000]
  by (simp add: exampleSession_def exampleEvent_def doseFromEvent_def)

text \<open>
  C2 as stated fails: with one event at time 0, all in the past of both
  \<open>now1 = 1000\<close> and \<open>now2 = 2000\<close>, the tolerance is 20 at both times, not
  strictly smaller at the later one.
\<close>

theorem computeTolerance_strict_counterexample:
  "\<not> computeTolerance 2000 [exampleSession ''s_1'' 0 None [exampleEvent 0]]
       < computeTolerance 1000 [exampleSession ''s_1'' 0 None [exampleEvent 0]]"
  by (simp add: computeTolerance_example)

section \<open>Properties of the derived queries\<close>

lemma arrayGet_nat: "arrayGet xs (real i) = (if i < length xs then Some (xs ! i) else None)"
  by (simp add: arrayGet_def)

lemma arrayGet_pred:
  "0 < i \<Longrightarrow> arrayGet xs (real i - 1) = (if i - 1 < length xs then Some (xs ! (i - 1)) else None)"
  using arrayGet_nat [of xs "i - 1"] by (simp add: of_nat_diff)

lemma intervalSincePrevious_in_range:
  assumes "0 < i" "i < length sessions"
  shows "intervalSincePrevious sessions (real i)
       = Some (max 0 (startTime (sessions ! i) - endOrStart (sessions ! (i - 1))))"
  using assms
  by (simp add: intervalSincePrevious_def arrayGet_nat arrayGet_pred endOrStart_def Let_def)

lemma intervalSincePrevious_Some:
  assumes "intervalSincePrevious sessions index = Some g"
  shows "\<exists>i. index = real i \<and> 0 < i \<and> i < length sessions"
proof -
  from assms have pos: "0 < index" and "arrayGet sessions index \<noteq> None"
    by (auto simp: intervalSincePrevious_def split: if_splits option.splits)
  then have int: "of_int \<lfloor>index\<rfloor> = index" and lt: "index < real (length sessions)"
    by (auto simp: arrayGet_def split: if_splits)
  define i where "i = nat \<lfloor>index\<rfloor>"
  have "0 < \<lfloor>index\<rfloor>" using pos int by linarith
  then have "real i = index" "0 < i" using int by (simp_all add: i_def)
  moreover have "i < length sessions" using lt \<open>real i = index\<close> by simp
  ultimately show ?thesis by auto
qed

text \<open>
  C8. \<open>intervalSincePrevious\<close> returns \<^verbatim>\<open>undefined\<close> when the index is 0 or negative
  or at or beyond the length of the list, and returns a number only at a whole
  index \<open>i\<close> with \<open>0 < i < length\<close>. There it returns the gap between the start of
  session \<open>i\<close> and the end time of session \<open>i - 1\<close>, or that session's start time
  when it has no end time: the difference of the two, and 0 when the difference
  is negative. For a session that starts exactly one hour after the end of the
  previous one the result is 3600000.
\<close>

theorem intervalSincePrevious_spec:
  "(index \<le> 0 \<or> real (length sessions) \<le> index \<longrightarrow>
        intervalSincePrevious sessions index = None)
   \<and> (intervalSincePrevious sessions index \<noteq> None \<longrightarrow>
        (\<exists>j. index = real j \<and> 0 < j \<and> j < length sessions))
   \<and> (0 < i \<and> i < length sessions \<longrightarrow>
        intervalSincePrevious sessions (real i)
          = Some (max 0 (startTime (sessions ! i) - endOrStart (sessions ! (i - 1))))
        \<and> (endOrStart (sessions ! (i - 1)) \<le> startTime (sessions ! i) \<longrightarrow>
             intervalSincePrevious sessions (real i)
               = Some (startTime (sessions ! i) - endOrStart (sessions ! (i - 1))))
        \<and> (startTime (sessions ! i) = endOrStart (sessions ! (i - 1)) + 3600000 \<longrightarrow>
             intervalSincePrevious sessions (real i) = Some 3600000))"
proof (intro conjI impI)
  assume "index \<le> 0 \<or> real (length sessions) \<le> index"
  then show "intervalSincePrevious sessions index = None"
    by (auto simp: intervalSincePrevious_def arrayGet_def split: option.splits)
next
  assume "intervalSincePrevious sessions index \<noteq> None"
  then show "\<exists>j. index = real j \<and> 0 < j \<and> j < length sessions"
    using intervalSincePrevious_Some by blast
next
  assume a: "0 < i \<and> i < length sessions"
  then show r: "intervalSincePrevious sessions (real i)
          = Some (max 0 (startTime (sessions ! i) - endOrStart (sessions ! (i - 1))))"
    by (simp add: intervalSincePrevious_in_range)
  {
    assume "endOrStart (sessions ! (i - 1)) \<le> startTime (sessions ! i)"
    then show "intervalSincePrevious sessions (real i)
               = Some (startTime (sessions ! i) - endOrStart (sessions ! (i - 1)))"
      using r by simp
  }
  {
    assume "startTime (sessions ! i) = endOrStart (sessions ! (i - 1)) + 3600000"
    then show "intervalSincePrevious sessions (real i) = Some 3600000"
      using r by simp
  }
qed

theorem intervalSincePrevious_spec_witness:
  "intervalSincePrevious
     [exampleSession ''s_1'' 0 (Some 1000) [exampleEvent 0, exampleEvent 500],
      exampleSession ''s_2'' 3601000 None []] 1 = Some 3600000
   \<and> intervalSincePrevious
     [exampleSession ''s_1'' 0 (Some 1000) [exampleEvent 0, exampleEvent 500],
      exampleSession ''s_2'' 3601000 None []] 0 = None
   \<and> intervalSincePrevious
     [exampleSession ''s_1'' 0 (Some 1000) [exampleEvent 0, exampleEvent 500],
      exampleSession ''s_2'' 3601000 None []] 2 = None"
  using intervalSincePrevious_spec
          [where sessions = "[exampleSession ''s_1'' 0 (Some 1000) [exampleEvent 0, exampleEvent 500],
                              exampleSession ''s_2'' 3601000 None []]"
             and i = 1 and index = 0]
        intervalSincePrevious_spec
          [where sessions = "[exampleSession ''s_1'' 0 (Some 1000) [exampleEvent 0, exampleEvent 500],
                              exampleSession ''s_2'' 3601000 None []]"
             and i = 1 and index = 2]
  by (simp add: exampleSession_def endOrStart_def)

text \<open>
  C10. Whenever \<open>intervalSincePrevious\<close> returns a number, the number is not
  negative; when the session at the index starts before the end-or-start time of
  the one before it, the result is 0.
\<close>

theorem intervalSincePrevious_nonneg:
  "(intervalSincePrevious sessions index = Some g \<longrightarrow> 0 \<le> g)
   \<and> (0 < i \<and> i < length sessions
        \<and> startTime (sessions ! i) < endOrStart (sessions ! (i - 1)) \<longrightarrow>
        intervalSincePrevious sessions (real i) = Some 0)"
proof (intro conjI impI)
  assume "intervalSincePrevious sessions index = Some g"
  then show "0 \<le> g"
    by (auto simp: intervalSincePrevious_def Let_def split: if_splits option.splits)
next
  assume "0 < i \<and> i < length sessions
        \<and> startTime (sessions ! i) < endOrStart (sessions ! (i - 1))"
  then show "intervalSincePrevious sessions (real i) = Some 0"
    by (simp add: intervalSincePrevious_in_range)
qed

theorem intervalSincePrevious_nonneg_witness:
  "intervalSincePrevious
     [exampleSession ''s_1'' 0 (Some 5000) [exampleEvent 0],
      exampleSession ''s_2'' 2000 None []] 1 = Some 0"
  using intervalSincePrevious_nonneg
          [where sessions = "[exampleSession ''s_1'' 0 (Some 5000) [exampleEvent 0],
                              exampleSession ''s_2'' 2000 None []]"
             and i = 1 and index = 1 and g = 0]
  by (simp add: exampleSession_def endOrStart_def)

lemmas formatDuration_eval =
  formatDuration_def jsRem_def numToString_def showNat.simps digitChar_def Let_def

lemma formatDuration_examples:
  "formatDuration 0 = ''0m''"
  "formatDuration 90000 = ''1m 30s''"
  "formatDuration 45000 = ''45s''"
  "formatDuration 3661000 = ''1h 1m''"
  by (simp_all add: formatDuration_eval)

lemma showNat_nonempty: "showNat n \<noteq> []"
  by (subst showNat.simps) simp

text \<open>
  C9, as amended. For a duration of at least 0 ms, with \<open>h\<close>, \<open>m\<close> and \<open>s\<close> the
  whole hours, the minutes and the seconds of the duration: hours and minutes are
  shown whenever nonzero; seconds are shown when the hours are zero and the
  seconds are nonzero, next to the minutes if there are any; the result is
  \<open>0m\<close> when all three are zero. In particular \<open>formatDuration 0\<close> is \<open>0m\<close>,
  \<open>formatDuration 90000\<close> is \<open>1m 30s\<close>, \<open>formatDuration 45000\<close> is \<open>45s\<close> and
  \<open>formatDuration 3661000\<close> is \<open>1h 1m\<close>.
\<close>

theorem formatDuration_cases:
  assumes "0 \<le> ms"
  shows "formatDuration ms =
     (let t = nat \<lfloor>ms / 1000\<rfloor>; h = t div 3600; m = (t mod 3600) div 60; s = t mod 60
      in if h \<noteq> 0 \<and> m \<noteq> 0 then showNat h @ ''h '' @ showNat m @ ''m''
         else if h \<noteq> 0 then showNat h @ ''h''
         else if m \<noteq> 0 \<and> s \<noteq> 0 then showNat m @ ''m '' @ showNat s @ ''s''
         else if m \<noteq> 0 then showNat m @ ''m''
         else if s \<noteq> 0 then showNat s @ ''s''
         else ''0m'')
     \<and> formatDuration 0 = ''0m''
     \<and> formatDuration 90000 = ''1m 30s''
     \<and> formatDuration 45000 = ''45s''
     \<and> formatDuration 3661000 = ''1h 1m''"
proof -
  define T where "T = \<lfloor>ms / 1000\<rfloor>"
  have T0: "0 \<le> T" using assms by (simp add: T_def)
  define t where "t = nat T"
  have T: "T = int t" using T0 by (simp add: t_def)
  have rem: "jsRem (int t) 3600 = int (t mod 3600)" "jsRem (int t) 60 = int (t mod 60)"
    by (simp_all add: jsRem_def sgn_if zmod_int)
  have d: "int t div 3600 = int (t div 3600)" "int (t mod 3600) div 60 = int (t mod 3600 div 60)"
    by (simp_all add: zdiv_int)
  have "formatDuration ms =
     (let t = nat \<lfloor>ms / 1000\<rfloor>; h = t div 3600; m = (t mod 3600) div 60; s = t mod 60
      in if h \<noteq> 0 \<and> m \<noteq> 0 then showNat h @ ''h '' @ showNat m @ ''m''
         else if h \<noteq> 0 then showNat h @ ''h''
         else if m \<noteq> 0 \<and> s \<noteq> 0 then showNat m @ ''m '' @ showNat s @ ''s''
         else if m \<noteq> 0 then showNat m @ ''m''
         else if s \<noteq> 0 then showNat s @ ''s''
         else ''0m'')"
    unfolding formatDuration_def T_def [symmetric] Let_def
    unfolding T rem d t_def [symmetric] nat_int
    by (simp add: numToString_def showNat_nonempty)
  then show ?thesis
    by (simp only: formatDuration_examples simp_thms)
qed

theorem formatDuration_cases_witness:
  "formatDuration 7325000 = ''2h 2m'' \<and> formatDuration 125000 = ''2m 5s''"
  using formatDuration_cases [of 7325000] formatDuration_cases [of 125000]
  by (simp add: Let_def showNat.simps digitChar_def)

text \<open>
  C9 as stated fails: one minute and thirty seconds is rendered with its seconds,
  not as \<open>1m\<close>, since the seconds are left out only when the hours are nonzero.
\<close>

theorem formatDuration_seconds_counterexample:
  "formatDuration 90000 \<noteq> ''1m''"
  by (simp add: formatDuration_eval)

section \<open>Properties of persistence\<close>

text \<open>
  The object of a record determines the record: two sessions with the same object
  agree on every field. Each field is recovered by reading its key.
\<close>

lemma map_of_optField:
  "map_of (optField k f v @ rest) k' =
     (if k' = k then (case v of None \<Rightarrow> map_of rest k' | Some x \<Rightarrow> Some (f x))
      else map_of rest k')"
  by (simp add: optField_def split: option.splits)

lemma map_of_optField_last:
  "map_of (optField k f v) k' = (if k' = k then map_option f v else None)"
  by (simp add: optField_def split: option.splits)

lemma map_option_JStr_eq: "(map_option JStr x = map_option JStr y) = (x = y)"
  by (cases x; cases y) auto

lemma map_option_JNum_eq: "(map_option JNum x = map_option JNum y) = (x = y)"
  by (cases x; cases y) auto

lemma map_JStr_eq: "(map JStr xs = map JStr ys) = (xs = ys)"
  by (auto simp: inj_def dest!: map_injective)

lemmas json_view_simps =
  map_of_optField map_of_optField_last map_option_JStr_eq map_option_JNum_eq map_JStr_eq





lemma inj_jsonOfGeo: "jsonOfGeo a = jsonOfGeo b \<Longrightarrow> a = b"
  by (cases a, cases b) (simp add: jsonOfGeo_def)

lemma inj_jsonOfTimeOfDay: "jsonOfTimeOfDay a = jsonOfTimeOfDay b \<Longrightarrow> a = b"
  by (cases a; cases b) simp_all

lemma inj_jsonOfBaseSubstance: "jsonOfBaseSubstance a = jsonOfBaseSubstance b \<Longrightarrow> a = b"
proof -
  assume eq: "jsonOfBaseSubstance a = jsonOfBaseSubstance b"
  have "getProp (jsonOfBaseSubstance a) k = getProp (jsonOfBaseSubstance b) k" for k
    by (simp only: eq)
  from this [of "''type''"]
  show ?thesis
    by (cases a, cases b)
       (simp del: map_of_append add: jsonOfBaseSubstance_def json_view_simps
          split: option.splits)
qed


lemma map_option_jsonOfGeo_eq: "(map_option jsonOfGeo x = map_option jsonOfGeo y) = (x = y)"
  using inj_jsonOfGeo by (cases x; cases y) auto

lemma map_option_jsonOfTimeOfDay_eq:
  "(map_option jsonOfTimeOfDay x = map_option jsonOfTimeOfDay y) = (x = y)"
  using inj_jsonOfTimeOfDay by (cases x; cases y) auto

lemma map_option_jsonOfBaseSubstance_eq:
  "(map_option jsonOfBaseSubstance x = map_option jsonOfBaseSubstance y) = (x = y)"
  using inj_jsonOfBaseSubstance by (cases x; cases y) auto



section \<open>Properties of the JSON text\<close>




























lemma skipWs_punct [simp]:
  "skipWs (CHR '','' # cs) = CHR '','' # cs"
  "skipWs (CHR '']'' # cs) = CHR '']'' # cs"
  "skipWs (CHR ''}'' # cs) = CHR ''}'' # cs"
  "skipWs (CHR '':'' # cs) = CHR '':'' # cs"
  "skipWs (CHR 0x22 # cs) = CHR 0x22 # cs"
  "skipWs [] = []"
  by (simp_all add: skipWs_def isWs_def)








lemma numberEnd_punct [simp]:
  "numberEnd (CHR '','' # cs)" "numberEnd (CHR '']'' # cs)" "numberEnd (CHR ''}'' # cs)"
  "numberEnd []"
  by (simp_all add: numberEnd_def)





section \<open>Properties of saving and loading\<close>










text \<open>
  Evaluating the text of a snapshot: the snapshot of one example session has 458
  characters and fits a store of 5 MiB; the snapshot of the empty list has 41
  characters, which a store with a quota of 40 refuses.
\<close>

lemmas stringify_eval =
  payloadOf_def jsonOfSession_def jsonOfEvent_def jsonOfContext_def jsonOfSocial_def
  jsonOfUser_def jsonOfBaseSubstance_def optField_def exampleSession_def exampleEvent_def
  quoteString_def escapeChar_def numberText_def showNat.simps fracDigits.simps
  fractionDigits_def digitChar_def Let_def



lemma save_quota_example:
  "saveSessions jsonStringify 0 [] \<lparr>items = [], quota = 40\<rparr> = Inl QuotaExceededError"
proof -
  have "length (jsonStringify (payloadOf [] 0)) = 41"
    by (simp add: stringify_eval)
  then show ?thesis
    by (simp add: saveSessions_def setItem_def storedSize_def STORAGE_KEY_def Let_def)
qed



text \<open>
  C6, as amended. \<open>loadSessions\<close> always returns a list, for every content of the
  store and every behaviour of the parser. It is the empty list when nothing is
  stored, when the stored text is empty, and when the text does not parse. A text
  that parses to a bare array loads as that array, and a text that parses to an
  object with an array under \<^verbatim>\<open>sessions\<close> loads as that array, whatever else the
  object holds: the wrapped form \<^verbatim>\<open>{sessions, createdAt, version}\<close> is one such
  object and loads exactly as the bare array does. Every other value, that is one
  that is neither an array nor an object with an array under \<^verbatim>\<open>sessions\<close>, such as an
  object whose \<^verbatim>\<open>sessions\<close> is a string, loads as the empty list.
\<close>

theorem loadSessions_shapes:
  "(getItem localStorage STORAGE_KEY = None \<longrightarrow> loadSessions JSON_parse localStorage = [])
   \<and> (getItem localStorage STORAGE_KEY = Some [] \<longrightarrow>
        loadSessions JSON_parse localStorage = [])
   \<and> (getItem localStorage STORAGE_KEY = Some raw \<and> JSON_parse raw = Inl e \<longrightarrow>
        loadSessions JSON_parse localStorage = [])
   \<and> (getItem localStorage STORAGE_KEY = Some raw \<and> raw \<noteq> []
        \<and> JSON_parse raw = Inr (JArr xs) \<longrightarrow>
        loadSessions JSON_parse localStorage = xs)
   \<and> (getItem localStorage STORAGE_KEY = Some raw \<and> raw \<noteq> []
        \<and> JSON_parse raw = Inr (JObj kvs) \<and> map_of kvs ''sessions'' = Some (JArr xs) \<longrightarrow>
        loadSessions JSON_parse localStorage = xs)
   \<and> (getItem localStorage STORAGE_KEY = Some raw \<and> raw \<noteq> []
        \<and> JSON_parse raw = Inr (JObj [(''sessions'', JArr xs), (''createdAt'', JNum createdAt),
                                       (''version'', JNum 1)]) \<longrightarrow>
        loadSessions JSON_parse localStorage = xs)
   \<and> (getItem localStorage STORAGE_KEY = Some raw \<and> JSON_parse raw = Inr v
        \<and> (\<forall>ys. v \<noteq> JArr ys)
        \<and> (\<forall>ms ys. v = JObj ms \<longrightarrow> map_of ms ''sessions'' \<noteq> Some (JArr ys)) \<longrightarrow>
        loadSessions JSON_parse localStorage = [])
   \<and> (getItem localStorage STORAGE_KEY = Some raw
        \<and> JSON_parse raw = Inr (JObj [(''sessions'', JStr str)]) \<longrightarrow>
        loadSessions JSON_parse localStorage = [])"
proof (intro conjI impI)
  assume "getItem localStorage STORAGE_KEY = Some raw \<and> JSON_parse raw = Inr v
        \<and> (\<forall>ys. v \<noteq> JArr ys)
        \<and> (\<forall>ms ys. v = JObj ms \<longrightarrow> map_of ms ''sessions'' \<noteq> Some (JArr ys))"
  then show "loadSessions JSON_parse localStorage = []"
    by (cases v; cases "getProp v ''sessions''"; cases "the (getProp v ''sessions'')")
       (auto simp: loadSessions_def loadSessionsTry_def)
qed (auto simp: loadSessions_def loadSessionsTry_def)

theorem loadSessions_shapes_witness:
  \<open>loadSessions exampleParse \<lparr>items = [], quota = 5242880\<rparr> = []
   \<and> loadSessions exampleParse (storeWith []) = []
   \<and> loadSessions exampleParse (storeWith ''not json'') = []
   \<and> loadSessions exampleParse (storeWith ''{"sessions":"none"}'') = []
   \<and> loadSessions exampleParse (storeWith ''[7]'') = [JNum 7]
   \<and> loadSessions exampleParse (storeWith ''{"sessions":[7],"createdAt":0,"version":1}'')
        = [JNum 7]\<close>
  using loadSessions_shapes
          [where JSON_parse = exampleParse and localStorage = "\<lparr>items = [], quota = 5242880\<rparr>"]
        loadSessions_shapes
          [where JSON_parse = exampleParse and localStorage = "storeWith []"]
        loadSessions_shapes
          [where JSON_parse = exampleParse and localStorage = "storeWith ''not json''"
             and raw = "''not json''" and e = SyntaxError]
        loadSessions_shapes
          [where JSON_parse = exampleParse
             and localStorage = \<open>storeWith ''{"sessions":"none"}''\<close>
             and raw = \<open>''{"sessions":"none"}''\<close> and str = "''none''"]
        loadSessions_shapes
          [where JSON_parse = exampleParse and localStorage = "storeWith ''[7]''"
             and raw = "''[7]''" and xs = "[JNum 7]"]
        loadSessions_shapes
          [where JSON_parse = exampleParse
             and localStorage = \<open>storeWith ''{"sessions":[7],"createdAt":0,"version":1}''\<close>
             and raw = \<open>''{"sessions":[7],"createdAt":0,"version":1}''\<close>
             and xs = "[JNum 7]" and createdAt = 0
             and kvs = "[(''sessions'', JArr [JNum 7]), (''createdAt'', JNum 0),
                         (''version'', JNum 1)]"]
  by (simp add: exampleParse_def storeWith_def getItem_def)

text \<open>
  C6 as stated fails: an object that holds an array under \<^verbatim>\<open>sessions\<close> and nothing
  else is neither a bare array nor the wrapped form with \<^verbatim>\<open>createdAt\<close> and
  \<^verbatim>\<open>version\<close>, and it does not load as the empty list.
\<close>

theorem loadSessions_other_shape_counterexample:
  \<open>loadSessions exampleParse (storeWith ''{"sessions":[7]}'') \<noteq> []\<close>
  by (simp add: loadSessions_def loadSessionsTry_def exampleParse_def storeWith_def
      getItem_def)

section \<open>Properties of the session store\<close>

lemma find_active_None: "\<forall>s\<in>set sessions. \<not> active s \<Longrightarrow> find active sessions = None"
  by (simp add: find_None_iff)

text \<open>
  C7. When no session of the list is active, adding a consumption, updating the
  context and ending the session each leave the session list exactly as it was;
  none of them has an error result.
\<close>

theorem no_active_session_noop:
  assumes "\<forall>s\<in>set sessions. \<not> active s"
  shows "addConsumption form dateNow sessions = sessions
       \<and> updateContext form sessions = sessions
       \<and> endSession dateNow sessions = sessions"
  using find_active_None [OF assms]
  by (simp add: addConsumption_def updateContext_def endSession_def)

theorem no_active_session_noop_witness:
  "addConsumption exampleForm 9000 [exampleSession ''s_1'' 0 (Some 1000) [exampleEvent 0]]
     = [exampleSession ''s_1'' 0 (Some 1000) [exampleEvent 0]]
   \<and> updateContext exampleForm [exampleSession ''s_1'' 0 (Some 1000) [exampleEvent 0]]
     = [exampleSession ''s_1'' 0 (Some 1000) [exampleEvent 0]]
   \<and> endSession 9000 [exampleSession ''s_1'' 0 (Some 1000) [exampleEvent 0]]
     = [exampleSession ''s_1'' 0 (Some 1000) [exampleEvent 0]]"
  using no_active_session_noop
          [of "[exampleSession ''s_1'' 0 (Some 1000) [exampleEvent 0]]" exampleForm 9000]
  by (simp add: exampleSession_def)

end
